theory Spec2Isabelle
  imports Complex_Main "HOL-Library.AList" "HOL-Library.Sublist"
begin

section \<open>JavaScript values\<close>

text \<open>
  Every value the server handles arrives as parsed JSON: the arguments of a tool call
  and the body of a gateway response. A JSON number is a finite double, hence a rational.
  An object is its list of entries, one per key, read with \<open>map_of\<close>.
  A JavaScript value that may be \<open>undefined\<close> is a \<open>json option\<close>, \<open>None\<close> being
  \<open>undefined\<close>. Strings are byte lists: a character outside ASCII is its UTF-8 bytes.
\<close>

datatype json =
    JNull
  | JBool bool
  | JNum rat
  | JStr string
  | JArr "json list"
  | JObj "(string \<times> json) list"

type_synonym jsval = "json option"

text \<open>Truthiness, as \<open>||\<close>, \<open>?:\<close> and \<open>if\<close> test it.\<close>

fun truthy :: "jsval \<Rightarrow> bool" where
  "truthy None = False"
| "truthy (Some JNull) = False"
| "truthy (Some (JBool b)) = b"
| "truthy (Some (JNum n)) = (n \<noteq> 0)"
| "truthy (Some (JStr s)) = (s \<noteq> [])"
| "truthy (Some (JArr xs)) = True"
| "truthy (Some (JObj kvs)) = True"

text \<open>\<open>a || b\<close> with a defined right operand.\<close>

definition js_or :: "jsval \<Rightarrow> json \<Rightarrow> jsval" where
  "js_or a b = (if truthy a then a else Some b)"

text \<open>A parameter with a default value: the default replaces \<open>undefined\<close> only.\<close>

definition default_param :: "jsval \<Rightarrow> json \<Rightarrow> jsval" where
  "default_param a d = (case a of None \<Rightarrow> Some d | Some v \<Rightarrow> Some v)"

text \<open>
  What the JavaScript engine supplies and the repository only calls: the rendering of a
  number, \<open>JSON.stringify(v)\<close>, \<open>JSON.stringify(v, null, 2)\<close>, the UTF-16 code units of a
  string (each as a string of its own), and the messages of the TypeErrors raised when a
  property is destructured from \<open>undefined\<close>, when a property is read from \<open>null\<close> or
  \<open>undefined\<close>, and when an object cannot be converted to a primitive value. They are
  parameters of the model.
\<close>

record builtins =
  Number_toString :: "rat \<Rightarrow> string"
  JSON_stringify :: "json \<Rightarrow> string"
  JSON_stringify_2 :: "json \<Rightarrow> string"
  code_units :: "string \<Rightarrow> string list"
  cannot_destructure :: "string \<Rightarrow> string"
  cannot_read :: "jsval \<Rightarrow> string \<Rightarrow> string"
  cannot_convert :: string

text \<open>
  A thrown JavaScript error object, as \<open>handleError\<close> looks at it: the HTTP library's own
  error carries \<open>response\<close> when a response arrived and \<open>request\<close> when the request was
  sent; a plain \<open>Error\<close> (a TypeError too) has neither, only its message.
\<close>

record AxiosResponse =
  status :: nat
  data :: json

record js_error =
  response :: "AxiosResponse option"
  request :: bool
  message :: string

definition new_Error :: "string \<Rightarrow> js_error" where
  "new_Error m = \<lparr>response = None, request = False, message = m\<rparr>"

text \<open>Sequencing inside a \<open>try\<close> block: the first throw ends it.\<close>

definition andThen :: "js_error + 'a \<Rightarrow> ('a \<Rightarrow> js_error + 'b) \<Rightarrow> js_error + 'b" where
  "andThen m f = (case m of Inl error \<Rightarrow> Inl error | Inr x \<Rightarrow> f x)"

text \<open>Decimal digits of a natural number (an HTTP status, an array index).\<close>

definition digit :: "nat \<Rightarrow> char" where
  "digit d = ''0123456789'' ! d"

function decimal :: "nat \<Rightarrow> string" where
  "decimal n = (if n < 10 then [digit n] else decimal (n div 10) @ [digit (n mod 10)])"
  by pat_completeness auto
termination
  by (relation "measure id") auto

declare decimal.simps [simp del]

text \<open>
  The string a template literal \<open>`${v}`\<close> inserts for a value: \<open>String(v)\<close>. A parsed
  object has no callable \<open>toString\<close> of its own: when it has no own key \<open>toString\<close> the
  inherited method gives \<open>[object Object]\<close>; when it has one, the own value hides the
  inherited method, the inherited \<open>valueOf\<close> (or an own, uncallable one) yields no
  primitive either, and the conversion throws a TypeError. An array joins the strings of
  its elements with commas, \<open>null\<close> elements giving the empty string, and throws where
  an element's conversion throws.
\<close>

fun join_comma :: "string list \<Rightarrow> string" where
  "join_comma [] = []"
| "join_comma [s] = s"
| "join_comma (s # t # ss) = s @ '','' @ join_comma (t # ss)"

fun json_String :: "builtins \<Rightarrow> json \<Rightarrow> js_error + string"
  and elements_String :: "builtins \<Rightarrow> json list \<Rightarrow> js_error + string list" where
  "json_String bi JNull = Inr ''null''"
| "json_String bi (JBool b) = Inr (if b then ''true'' else ''false'')"
| "json_String bi (JNum n) = Inr (Number_toString bi n)"
| "json_String bi (JStr s) = Inr s"
| "json_String bi (JArr xs) =
     (case elements_String bi xs of Inl error \<Rightarrow> Inl error | Inr ss \<Rightarrow> Inr (join_comma ss))"
| "json_String bi (JObj kvs) =
     (if map_of kvs ''toString'' \<noteq> None then Inl (new_Error (cannot_convert bi))
      else Inr ''[object Object]'')"
| "elements_String bi [] = Inr []"
| "elements_String bi (x # xs) =
     (case (if x = JNull then Inr [] else json_String bi x) of
        Inl error \<Rightarrow> Inl error
      | Inr s \<Rightarrow>
          (case elements_String bi xs of Inl error \<Rightarrow> Inl error | Inr ss \<Rightarrow> Inr (s # ss)))"

definition js_String :: "builtins \<Rightarrow> jsval \<Rightarrow> js_error + string" where
  "js_String bi v = (case v of None \<Rightarrow> Inr ''undefined'' | Some j \<Rightarrow> json_String bi j)"

text \<open>\<open>`${JSON.stringify(v, null, 2)}`\<close>: \<open>JSON.stringify\<close> of \<open>undefined\<close> is \<open>undefined\<close>.\<close>

definition template_stringify_2 :: "builtins \<Rightarrow> jsval \<Rightarrow> string" where
  "template_stringify_2 bi v =
     (case v of None \<Rightarrow> ''undefined'' | Some j \<Rightarrow> JSON_stringify_2 bi j)"

text \<open>
  An object literal under construction: its fields in the order they are written, a
  field possibly holding \<open>undefined\<close> (the engine lists integer-like keys first; nothing
  here depends on the order). Spreading \<open>...v\<close> into it copies the own enumerable
  properties of \<open>v\<close>: the entries of an object, the indexed elements of an array, the
  indexed code units of a string, nothing for any other value.
\<close>

type_synonym fields = "(string \<times> jsval) list"

fun indexed :: "nat \<Rightarrow> json list \<Rightarrow> (string \<times> json) list" where
  "indexed i [] = []"
| "indexed i (x # xs) = (decimal i, x) # indexed (Suc i) xs"

fun own_properties :: "builtins \<Rightarrow> jsval \<Rightarrow> (string \<times> json) list" where
  "own_properties bi (Some (JObj kvs)) = kvs"
| "own_properties bi (Some (JArr xs)) = indexed 0 xs"
| "own_properties bi (Some (JStr s)) = indexed 0 (map JStr (code_units bi s))"
| "own_properties bi _ = []"

definition spread :: "builtins \<Rightarrow> fields \<Rightarrow> jsval \<Rightarrow> fields" where
  "spread bi fs v =
     fold (\<lambda>(k, x) acc. AList.update k (Some x) acc) (own_properties bi v) fs"

section \<open>The HTTP channel\<close>

datatype http_method = GET | POST | PUT | DELETE

datatype request_data = Fields fields | Payload json

record AxiosRequest =
  "method" :: http_method
  url :: string
  body :: "request_data option"
  req_baseURL :: "string option"
  req_headers :: "(string \<times> string option) list"
  req_timeout :: rat

text \<open>
  What happens to one request on the wire: a response arrives (any status, the body
  parsed as JSON or left as a string), or the request is sent and nothing comes back
  (refused connection, timeout), or the request cannot be sent at all. The upstream
  gateway and the network are a function from the request to its fate.
\<close>

datatype exchange = Replied AxiosResponse | NoReply string | NotSent string

type_synonym upstream = "AxiosRequest \<Rightarrow> exchange"

record AxiosInstance =
  baseURL :: "string option"
  headers :: "(string \<times> string option) list"
  timeout_ms :: rat
  validateStatus :: "nat \<Rightarrow> bool"

text \<open>
  A request through an instance made by \<open>axios.create\<close>: the instance's defaults go into
  the request, and the promise resolves with the response when \<open>validateStatus\<close> accepts
  its status and rejects with the library's error otherwise. The response interceptor
  installed by the constructor only logs and passes the response, or the same error, on.
\<close>

definition axios_request ::
  "AxiosInstance \<Rightarrow> upstream \<Rightarrow> http_method \<Rightarrow> string \<Rightarrow> request_data option
     \<Rightarrow> js_error + AxiosResponse" where
  "axios_request inst net m u d =
     (case net \<lparr>method = m, url = u, body = d, req_baseURL = baseURL inst,
                req_headers = headers inst, req_timeout = timeout_ms inst\<rparr> of
        Replied r \<Rightarrow>
          if validateStatus inst (status r) then Inr r
          else Inl \<lparr>response = Some r, request = True,
                    message = ''Request failed with status code '' @ decimal (status r)\<rparr>
      | NoReply msg \<Rightarrow> Inl \<lparr>response = None, request = True, message = msg\<rparr>
      | NotSent msg \<Rightarrow> Inl \<lparr>response = None, request = False, message = msg\<rparr>)"

section \<open>The gateway client\<close>

record GatewayConfig =
  baseUrl :: "string option"
  token :: "string option"
  tenantId :: "string option"
  timeout :: "rat option"

record BinelekGatewayClient =
  client :: AxiosInstance
  this_tenantId :: "string option"

text \<open>
  The constructor. The interface declares \<open>baseUrl\<close> and \<open>tenantId\<close> as required strings,
  which the type checker enforces on callers; at run time the constructor reads whatever
  the object holds, \<open>None\<close> being a property that is not there. It has no \<open>throw\<close>.
\<close>

definition new_BinelekGatewayClient :: "GatewayConfig \<Rightarrow> js_error + BinelekGatewayClient" where
  "new_BinelekGatewayClient config =
     (let hs = [(''X-Tenant-Id'', tenantId config),
                (''Content-Type'', Some ''application/json'')];
          hs = (case token config of
                  None \<Rightarrow> hs
                | Some t \<Rightarrow>
                    if truthy (Some (JStr t))
                    then AList.update ''Authorization'' (Some (''Bearer '' @ t)) hs
                    else hs)
      in Inr \<lparr>client = \<lparr>baseURL = baseUrl config,
                         headers = hs,
                         timeout_ms = (case timeout config of
                                         None \<Rightarrow> 30000
                                       | Some t \<Rightarrow>
                                           if truthy (Some (JNum t)) then t else 30000),
                         validateStatus = (\<lambda>status. status < 500)\<rparr>,
              this_tenantId = tenantId config\<rparr>)"

text \<open>
  \<open>handleError\<close> never returns: the value of the model is the error it throws.
\<close>

definition handleError :: "builtins \<Rightarrow> js_error \<Rightarrow> js_error" where
  "handleError bi error =
     (case response error of
        Some r \<Rightarrow>
          new_Error (''API Error ('' @ decimal (status r) @ ''): '' @ JSON_stringify bi (data r))
      | None \<Rightarrow>
          if request error then new_Error ''No response from API Gateway. Is it running?''
          else new_Error (''Request failed: '' @ message error))"

text \<open>
  The public methods of the client, each with its actual parameters. A parameter is
  whatever value the caller passes: the declared parameter types are not checked at
  run time.
\<close>

datatype operation =
    healthCheck
  | getEntity jsval
  | queryEntities jsval jsval
  | createEntity jsval jsval
  | updateEntity jsval jsval
  | deleteEntity jsval
  | getRelationships jsval
  | createRelationship jsval jsval jsval jsval
  | semanticSearch jsval jsval jsval
  | keywordSearch jsval jsval jsval
  | hybridSearch jsval jsval
  | predict jsval jsval
  | chat jsval jsval
  | analyzeEntity jsval jsval
  | listPipelines
  | getPipeline jsval
  | triggerPipeline jsval jsval
  | getPipelineRuns jsval
  | listDomains
  | getDomainConfig jsval
  | getOntologySchema jsval
  | validateYaml jsval
  | generateCode jsval jsval

text \<open>
  The one HTTP call each method makes: verb, path and request body. The arguments of
  the call are evaluated first, so a path whose template literal throws means that
  nothing is handed to the channel.
\<close>

fun http_call ::
  "builtins \<Rightarrow> BinelekGatewayClient \<Rightarrow> operation
     \<Rightarrow> js_error + http_method \<times> string \<times> request_data option" where
  "http_call bi this healthCheck = Inr (GET, ''/health'', None)"
| "http_call bi this (getEntity entityId) =
     andThen (js_String bi entityId) (\<lambda>id.
     Inr (GET, ''/api/ontology/entities/'' @ id, None))"
| "http_call bi this (queryEntities cypherQuery parameters) =
     Inr (POST, ''/api/ontology/query'',
          Some (Fields [(''query'', cypherQuery),
                        (''parameters'', js_or parameters (JObj []))]))"
| "http_call bi this (createEntity entityType attributes) =
     Inr (POST, ''/api/ontology/entities'',
          Some (Fields [(''type'', entityType), (''attributes'', attributes),
                        (''tenantId'', map_option JStr (this_tenantId this))]))"
| "http_call bi this (updateEntity entityId attributes) =
     andThen (js_String bi entityId) (\<lambda>id.
     Inr (PUT, ''/api/ontology/entities/'' @ id, Some (Fields [(''attributes'', attributes)])))"
| "http_call bi this (deleteEntity entityId) =
     andThen (js_String bi entityId) (\<lambda>id.
     Inr (DELETE, ''/api/ontology/entities/'' @ id, None))"
| "http_call bi this (getRelationships entityId) =
     andThen (js_String bi entityId) (\<lambda>id.
     Inr (GET, ''/api/ontology/entities/'' @ id @ ''/relationships'', None))"
| "http_call bi this (createRelationship sourceId targetId relationshipType properties) =
     Inr (POST, ''/api/ontology/relationships'',
          Some (Fields [(''sourceId'', sourceId), (''targetId'', targetId),
                        (''type'', relationshipType),
                        (''properties'', js_or properties (JObj []))]))"
| "http_call bi this (semanticSearch query entityTypes limit) =
     Inr (POST, ''/api/search/semantic'',
          Some (Fields [(''query'', query), (''entityTypes'', entityTypes),
                        (''limit'', default_param limit (JNum 10))]))"
| "http_call bi this (keywordSearch query filters limit) =
     Inr (POST, ''/api/search/keyword'',
          Some (Fields [(''query'', query), (''filters'', filters),
                        (''limit'', default_param limit (JNum 10))]))"
| "http_call bi this (hybridSearch query options) =
     Inr (POST, ''/api/search/hybrid'', Some (Fields (spread bi [(''query'', query)] options)))"
| "http_call bi this (predict modelType input) =
     Inr (POST, ''/api/ai/predict'',
          Some (Fields [(''modelType'', modelType), (''input'', input)]))"
| "http_call bi this (chat msg context) =
     Inr (POST, ''/api/ai/chat'',
          Some (Fields [(''message'', msg), (''context'', js_or context (JArr []))]))"
| "http_call bi this (analyzeEntity entityId analysisType) =
     Inr (POST, ''/api/ai/analyze'',
          Some (Fields [(''entityId'', entityId), (''analysisType'', analysisType)]))"
| "http_call bi this listPipelines = Inr (GET, ''/api/pipeline/pipelines'', None)"
| "http_call bi this (getPipeline pipelineId) =
     andThen (js_String bi pipelineId) (\<lambda>id.
     Inr (GET, ''/api/pipeline/pipelines/'' @ id, None))"
| "http_call bi this (triggerPipeline pipelineId parameters) =
     andThen (js_String bi pipelineId) (\<lambda>id.
     Inr (POST, ''/api/pipeline/pipelines/'' @ id @ ''/trigger'',
          map_option Payload (js_or parameters (JObj []))))"
| "http_call bi this (getPipelineRuns pipelineId) =
     andThen (js_String bi pipelineId) (\<lambda>id.
     Inr (GET, ''/api/pipeline/pipelines/'' @ id @ ''/runs'', None))"
| "http_call bi this listDomains = Inr (GET, ''/api/domains'', None)"
| "http_call bi this (getDomainConfig domainName) =
     andThen (js_String bi domainName) (\<lambda>name.
     Inr (GET, ''/api/domains/'' @ name, None))"
| "http_call bi this (getOntologySchema domainName) =
     andThen (js_String bi domainName) (\<lambda>name.
     Inr (GET, ''/api/domains/'' @ name @ ''/ontology'', None))"
| "http_call bi this (validateYaml yamlContent) =
     Inr (POST, ''/api/regen/validate'', Some (Fields [(''yaml'', yamlContent)]))"
| "http_call bi this (generateCode yamlContent targetLanguage) =
     Inr (POST, ''/api/regen/generate'',
          Some (Fields [(''yaml'', yamlContent), (''language'', targetLanguage)]))"

text \<open>
  The request as it leaves the client's channel, or what evaluating the call's
  arguments threw instead.
\<close>

definition outbound ::
  "builtins \<Rightarrow> BinelekGatewayClient \<Rightarrow> operation \<Rightarrow> js_error + AxiosRequest" where
  "outbound bi this op =
     andThen (http_call bi this op) (\<lambda>(m, u, d).
     Inr \<lparr>method = m, url = u, body = d, req_baseURL = baseURL (client this),
          req_headers = headers (client this), req_timeout = timeout_ms (client this)\<rparr>)"

text \<open>
  What a method does with the response inside its \<open>try\<close>: \<open>getEntity\<close> throws on status
  404, every method otherwise returns the parsed body.
\<close>

fun on_response :: "builtins \<Rightarrow> operation \<Rightarrow> AxiosResponse \<Rightarrow> js_error + json" where
  "on_response bi (getEntity entityId) r =
     (if status r = 404 then
        andThen (js_String bi entityId) (\<lambda>id. Inl (new_Error (''Entity not found: '' @ id)))
      else Inr (data r))"
| "on_response bi _ r = Inr (data r)"

text \<open>
  A method call: the \<open>try\<close> block builds the call, awaits it and handles the response;
  the \<open>catch\<close> block hands whatever was thrown in it to \<open>handleError\<close>.
\<close>

definition try_call ::
  "builtins \<Rightarrow> BinelekGatewayClient \<Rightarrow> upstream \<Rightarrow> operation \<Rightarrow> js_error + json" where
  "try_call bi this net op =
     andThen (http_call bi this op) (\<lambda>(m, u, d).
     andThen (axios_request (client this) net m u d) (\<lambda>r.
     on_response bi op r))"

definition gateway ::
  "builtins \<Rightarrow> BinelekGatewayClient \<Rightarrow> upstream \<Rightarrow> operation \<Rightarrow> js_error + json" where
  "gateway bi this net op =
     (case try_call bi this net op of
        Inl error \<Rightarrow> Inl (handleError bi error)
      | Inr result \<Rightarrow> Inr result)"

section \<open>The tool group adapters\<close>

record content_block =
  type :: string
  "text" :: string

text \<open>A handler's return value; \<open>isError = None\<close> is an object without that property.\<close>

record ToolResult =
  content :: "content_block list"
  isError :: "bool option"

text \<open>A \<open>return\<close> inside the \<open>switch\<close>: one text block and no \<open>isError\<close> property.\<close>

definition returned :: "string \<Rightarrow> ToolResult" where
  "returned t = \<lparr>content = [\<lparr>type = ''text'', text = t\<rparr>], isError = None\<rparr>"

text \<open>The \<open>default\<close> branch of each \<open>switch\<close>.\<close>

definition unknown_tool :: "string \<Rightarrow> ToolResult" where
  "unknown_tool name =
     \<lparr>content = [\<lparr>type = ''text'', text = ''Unknown tool: '' @ name\<rparr>], isError = Some True\<rparr>"

text \<open>The \<open>catch\<close> block of each handler.\<close>

definition caught :: "js_error \<Rightarrow> ToolResult" where
  "caught error =
     \<lparr>content = [\<lparr>type = ''text'', text = ''Error: '' @ message error\<rparr>], isError = Some True\<rparr>"

text \<open>
  The arguments of a tool call: an object, or \<open>undefined\<close> when the request has none.
  Destructuring \<open>const { a, ... } = args\<close> throws a TypeError on \<open>undefined\<close>, naming
  the first property; on an object each name reads its property.
\<close>

type_synonym arguments = "(string \<times> json) list option"

definition destructure ::
  "builtins \<Rightarrow> string \<Rightarrow> arguments \<Rightarrow> js_error + (string \<Rightarrow> jsval)" where
  "destructure bi first args =
     (case args of
        None \<Rightarrow> Inl (new_Error (cannot_destructure bi first))
      | Some kvs \<Rightarrow> Inr (map_of kvs))"

text \<open>
  Reading a property \<open>v.p\<close> of a parsed JSON value, for a name \<open>p\<close> that no prototype
  defines: a TypeError on \<open>null\<close>, the entry of an object, \<open>undefined\<close> otherwise.
\<close>

fun get_property :: "builtins \<Rightarrow> json \<Rightarrow> string \<Rightarrow> js_error + jsval" where
  "get_property bi JNull p = Inl (new_Error (cannot_read bi (Some JNull) p))"
| "get_property bi (JObj kvs) p = Inr (map_of kvs p)"
| "get_property bi _ p = Inr None"

definition newline :: string where
  "newline = [CHR 0x0A]"

text \<open>The check mark U+2713 and the ballot cross U+2717 of the source text, in UTF-8.\<close>

definition check_mark :: string where
  "check_mark = [CHR 0xE2, CHR 0x9C, CHR 0x93]"

definition cross_mark :: string where
  "cross_mark = [CHR 0xE2, CHR 0x9C, CHR 0x97]"

type_synonym gateway_object = "operation \<Rightarrow> js_error + json"

text \<open>
  Each \<open>register...Tools\<close> function declares its tools and installs one handler. The
  handler's \<open>try\<close> block is the \<open>switch\<close> on the tool name; \<open>gw\<close> is the gateway object
  the function was given.
\<close>

definition ontology_tools :: "string list" where
  "ontology_tools =
     [''binelek_get_entity'', ''binelek_query_entities'', ''binelek_create_entity'',
      ''binelek_update_entity'', ''binelek_delete_entity'', ''binelek_get_relationships'',
      ''binelek_create_relationship'']"

definition ontology_try ::
  "builtins \<Rightarrow> gateway_object \<Rightarrow> string \<Rightarrow> arguments \<Rightarrow> js_error + ToolResult" where
  "ontology_try bi gw name args =
     (if name = ''binelek_get_entity'' then
        andThen (destructure bi ''entityId'' args) (\<lambda>a.
        andThen (gw (getEntity (a ''entityId''))) (\<lambda>result.
        Inr (returned (JSON_stringify_2 bi result))))
      else if name = ''binelek_query_entities'' then
        andThen (destructure bi ''cypherQuery'' args) (\<lambda>a.
        andThen (gw (queryEntities (a ''cypherQuery'') (a ''parameters''))) (\<lambda>result.
        Inr (returned (JSON_stringify_2 bi result))))
      else if name = ''binelek_create_entity'' then
        andThen (destructure bi ''entityType'' args) (\<lambda>a.
        andThen (gw (createEntity (a ''entityType'') (a ''attributes''))) (\<lambda>result.
        Inr (returned (''Entity created successfully:'' @ newline
                         @ JSON_stringify_2 bi result))))
      else if name = ''binelek_update_entity'' then
        andThen (destructure bi ''entityId'' args) (\<lambda>a.
        andThen (gw (updateEntity (a ''entityId'') (a ''attributes''))) (\<lambda>result.
        Inr (returned (''Entity updated successfully:'' @ newline
                         @ JSON_stringify_2 bi result))))
      else if name = ''binelek_delete_entity'' then
        andThen (destructure bi ''entityId'' args) (\<lambda>a.
        andThen (gw (deleteEntity (a ''entityId''))) (\<lambda>_.
        andThen (js_String bi (a ''entityId'')) (\<lambda>id.
        Inr (returned (''Entity '' @ id @ '' deleted successfully'')))))
      else if name = ''binelek_get_relationships'' then
        andThen (destructure bi ''entityId'' args) (\<lambda>a.
        andThen (gw (getRelationships (a ''entityId''))) (\<lambda>result.
        Inr (returned (JSON_stringify_2 bi result))))
      else if name = ''binelek_create_relationship'' then
        andThen (destructure bi ''sourceId'' args) (\<lambda>a.
        andThen (gw (createRelationship (a ''sourceId'') (a ''targetId'')
                       (a ''relationshipType'') (a ''properties''))) (\<lambda>result.
        Inr (returned (''Relationship created successfully:'' @ newline
                         @ JSON_stringify_2 bi result))))
      else Inr (unknown_tool name))"

definition search_tools :: "string list" where
  "search_tools =
     [''binelek_semantic_search'', ''binelek_keyword_search'', ''binelek_hybrid_search'']"

definition search_try ::
  "builtins \<Rightarrow> gateway_object \<Rightarrow> string \<Rightarrow> arguments \<Rightarrow> js_error + ToolResult" where
  "search_try bi gw name args =
     (if name = ''binelek_semantic_search'' then
        andThen (destructure bi ''query'' args) (\<lambda>a.
        andThen (gw (semanticSearch (a ''query'') (a ''entityTypes'') (a ''limit''))) (\<lambda>result.
        Inr (returned (JSON_stringify_2 bi result))))
      else if name = ''binelek_keyword_search'' then
        andThen (destructure bi ''query'' args) (\<lambda>a.
        andThen (gw (keywordSearch (a ''query'') (a ''filters'') (a ''limit''))) (\<lambda>result.
        Inr (returned (JSON_stringify_2 bi result))))
      else if name = ''binelek_hybrid_search'' then
        (case args of
           None \<Rightarrow> Inl (new_Error (cannot_read bi None ''query''))
         | Some kvs \<Rightarrow>
             andThen (gw (hybridSearch (map_of kvs ''query'') (Some (JObj kvs)))) (\<lambda>result.
             Inr (returned (JSON_stringify_2 bi result))))
      else Inr (unknown_tool name))"

definition ai_tools :: "string list" where
  "ai_tools = [''binelek_ai_chat'', ''binelek_ai_predict'', ''binelek_ai_analyze_entity'']"

definition ai_try ::
  "builtins \<Rightarrow> gateway_object \<Rightarrow> string \<Rightarrow> arguments \<Rightarrow> js_error + ToolResult" where
  "ai_try bi gw name args =
     (if name = ''binelek_ai_chat'' then
        andThen (destructure bi ''message'' args) (\<lambda>a.
        andThen (gw (chat (a ''message'') (a ''context''))) (\<lambda>result.
        Inr (returned (case result of JStr s \<Rightarrow> s | _ \<Rightarrow> JSON_stringify_2 bi result))))
      else if name = ''binelek_ai_predict'' then
        andThen (destructure bi ''modelType'' args) (\<lambda>a.
        andThen (gw (predict (a ''modelType'') (a ''input''))) (\<lambda>result.
        Inr (returned (JSON_stringify_2 bi result))))
      else if name = ''binelek_ai_analyze_entity'' then
        andThen (destructure bi ''entityId'' args) (\<lambda>a.
        andThen (gw (analyzeEntity (a ''entityId'') (a ''analysisType''))) (\<lambda>result.
        Inr (returned (JSON_stringify_2 bi result))))
      else Inr (unknown_tool name))"

definition pipeline_tools :: "string list" where
  "pipeline_tools =
     [''binelek_list_pipelines'', ''binelek_get_pipeline'', ''binelek_trigger_pipeline'',
      ''binelek_get_pipeline_runs'']"

definition pipeline_try ::
  "builtins \<Rightarrow> gateway_object \<Rightarrow> string \<Rightarrow> arguments \<Rightarrow> js_error + ToolResult" where
  "pipeline_try bi gw name args =
     (if name = ''binelek_list_pipelines'' then
        andThen (gw listPipelines) (\<lambda>result.
        Inr (returned (JSON_stringify_2 bi result)))
      else if name = ''binelek_get_pipeline'' then
        andThen (destructure bi ''pipelineId'' args) (\<lambda>a.
        andThen (gw (getPipeline (a ''pipelineId''))) (\<lambda>result.
        Inr (returned (JSON_stringify_2 bi result))))
      else if name = ''binelek_trigger_pipeline'' then
        andThen (destructure bi ''pipelineId'' args) (\<lambda>a.
        andThen (gw (triggerPipeline (a ''pipelineId'') (a ''parameters''))) (\<lambda>result.
        Inr (returned (''Pipeline triggered successfully:'' @ newline
                         @ JSON_stringify_2 bi result))))
      else if name = ''binelek_get_pipeline_runs'' then
        andThen (destructure bi ''pipelineId'' args) (\<lambda>a.
        andThen (gw (getPipelineRuns (a ''pipelineId''))) (\<lambda>result.
        Inr (returned (JSON_stringify_2 bi result))))
      else Inr (unknown_tool name))"

definition admin_tools :: "string list" where
  "admin_tools =
     [''binelek_list_domains'', ''binelek_get_domain'', ''binelek_get_ontology_schema'',
      ''binelek_validate_yaml'', ''binelek_generate_code'']"

definition admin_try ::
  "builtins \<Rightarrow> gateway_object \<Rightarrow> string \<Rightarrow> arguments \<Rightarrow> js_error + ToolResult" where
  "admin_try bi gw name args =
     (if name = ''binelek_list_domains'' then
        andThen (gw listDomains) (\<lambda>result.
        Inr (returned (JSON_stringify_2 bi result)))
      else if name = ''binelek_get_domain'' then
        andThen (destructure bi ''domainName'' args) (\<lambda>a.
        andThen (gw (getDomainConfig (a ''domainName''))) (\<lambda>result.
        Inr (returned (JSON_stringify_2 bi result))))
      else if name = ''binelek_get_ontology_schema'' then
        andThen (destructure bi ''domainName'' args) (\<lambda>a.
        andThen (gw (getOntologySchema (a ''domainName''))) (\<lambda>result.
        Inr (returned (JSON_stringify_2 bi result))))
      else if name = ''binelek_validate_yaml'' then
        andThen (destructure bi ''yamlContent'' args) (\<lambda>a.
        andThen (gw (validateYaml (a ''yamlContent''))) (\<lambda>result.
        andThen (get_property bi result ''valid'') (\<lambda>valid.
        if truthy valid then
          Inr (returned (check_mark @ '' YAML is valid'' @ newline
                           @ JSON_stringify_2 bi result))
        else
          andThen (get_property bi result ''errors'') (\<lambda>errors.
          Inr (returned (cross_mark @ '' YAML validation failed:'' @ newline
                           @ template_stringify_2 bi errors))))))
      else if name = ''binelek_generate_code'' then
        andThen (destructure bi ''yamlContent'' args) (\<lambda>a.
        andThen (gw (generateCode (a ''yamlContent'') (a ''targetLanguage''))) (\<lambda>result.
        Inr (returned (''Code generated successfully:'' @ newline
                         @ JSON_stringify_2 bi result))))
      else Inr (unknown_tool name))"

datatype tool_group = Ontology | Search | AI | Pipeline | Admin

fun tools :: "tool_group \<Rightarrow> string list" where
  "tools Ontology = ontology_tools"
| "tools Search = search_tools"
| "tools AI = ai_tools"
| "tools Pipeline = pipeline_tools"
| "tools Admin = admin_tools"

fun try_block ::
  "tool_group \<Rightarrow> builtins \<Rightarrow> gateway_object \<Rightarrow> string \<Rightarrow> arguments
     \<Rightarrow> js_error + ToolResult" where
  "try_block Ontology = ontology_try"
| "try_block Search = search_try"
| "try_block AI = ai_try"
| "try_block Pipeline = pipeline_try"
| "try_block Admin = admin_try"

text \<open>The handler of a group: \<open>try { switch ... } catch (error) { ... }\<close>.\<close>

definition handler ::
  "tool_group \<Rightarrow> builtins \<Rightarrow> gateway_object \<Rightarrow> string \<Rightarrow> arguments \<Rightarrow> ToolResult" where
  "handler g bi gw name args =
     (case try_block g bi gw name args of
        Inl error \<Rightarrow> caught error
      | Inr result \<Rightarrow> result)"

text \<open>
  The gateway method a tool call reaches, with its actual parameters: none when the name
  is not a tool of the group or when reading the arguments throws first.
\<close>

definition invoked :: "tool_group \<Rightarrow> string \<Rightarrow> arguments \<Rightarrow> operation option" where
  "invoked g name args =
     (if name \<notin> set (tools g) then None
      else if name = ''binelek_list_pipelines'' then Some listPipelines
      else if name = ''binelek_list_domains'' then Some listDomains
      else (case args of
        None \<Rightarrow> None
      | Some kvs \<Rightarrow>
          (let a = map_of kvs in
           if name = ''binelek_get_entity'' then Some (getEntity (a ''entityId''))
           else if name = ''binelek_query_entities''
             then Some (queryEntities (a ''cypherQuery'') (a ''parameters''))
           else if name = ''binelek_create_entity''
             then Some (createEntity (a ''entityType'') (a ''attributes''))
           else if name = ''binelek_update_entity''
             then Some (updateEntity (a ''entityId'') (a ''attributes''))
           else if name = ''binelek_delete_entity'' then Some (deleteEntity (a ''entityId''))
           else if name = ''binelek_get_relationships''
             then Some (getRelationships (a ''entityId''))
           else if name = ''binelek_create_relationship''
             then Some (createRelationship (a ''sourceId'') (a ''targetId'')
                          (a ''relationshipType'') (a ''properties''))
           else if name = ''binelek_semantic_search''
             then Some (semanticSearch (a ''query'') (a ''entityTypes'') (a ''limit''))
           else if name = ''binelek_keyword_search''
             then Some (keywordSearch (a ''query'') (a ''filters'') (a ''limit''))
           else if name = ''binelek_hybrid_search''
             then Some (hybridSearch (a ''query'') (Some (JObj kvs)))
           else if name = ''binelek_ai_chat'' then Some (chat (a ''message'') (a ''context''))
           else if name = ''binelek_ai_predict''
             then Some (predict (a ''modelType'') (a ''input''))
           else if name = ''binelek_ai_analyze_entity''
             then Some (analyzeEntity (a ''entityId'') (a ''analysisType''))
           else if name = ''binelek_get_pipeline'' then Some (getPipeline (a ''pipelineId''))
           else if name = ''binelek_trigger_pipeline''
             then Some (triggerPipeline (a ''pipelineId'') (a ''parameters''))
           else if name = ''binelek_get_pipeline_runs''
             then Some (getPipelineRuns (a ''pipelineId''))
           else if name = ''binelek_get_domain'' then Some (getDomainConfig (a ''domainName''))
           else if name = ''binelek_get_ontology_schema''
             then Some (getOntologySchema (a ''domainName''))
           else if name = ''binelek_validate_yaml''
             then Some (validateYaml (a ''yamlContent''))
           else if name = ''binelek_generate_code''
             then Some (generateCode (a ''yamlContent'') (a ''targetLanguage''))
           else None)))"

section \<open>Example values\<close>

text \<open>
  A stand-in for the engine's functions, two configurations as the bootstrap builds them
  (with and without a token) and the clients the constructor makes from them, and a
  gateway that answers every request with one fixed response: for evaluating the model
  on concrete calls.
\<close>

definition example_builtins :: builtins where
  "example_builtins =
     \<lparr>Number_toString = (\<lambda>n. ''1''),
      JSON_stringify = (\<lambda>j. ''{}''),
      JSON_stringify_2 = (\<lambda>j. ''{ }''),
      code_units = map (\<lambda>c. [c]),
      cannot_destructure = (\<lambda>p. ''Cannot destructure property '' @ p),
      cannot_read = (\<lambda>v p. ''Cannot read property '' @ p),
      cannot_convert = ''Cannot convert object to primitive value''\<rparr>"

definition example_config :: GatewayConfig where
  "example_config =
     \<lparr>baseUrl = Some ''http://localhost:8092'', token = Some ''jwt'',
      tenantId = Some ''core'', timeout = None\<rparr>"

definition example_client :: BinelekGatewayClient where
  "example_client =
     \<lparr>client = \<lparr>baseURL = Some ''http://localhost:8092'',
                 headers = [(''X-Tenant-Id'', Some ''core''),
                            (''Content-Type'', Some ''application/json''),
                            (''Authorization'', Some ''Bearer jwt'')],
                 timeout_ms = 30000,
                 validateStatus = (\<lambda>status. status < 500)\<rparr>,
      this_tenantId = Some ''core''\<rparr>"

definition example_config_anonymous :: GatewayConfig where
  "example_config_anonymous =
     \<lparr>baseUrl = Some ''http://gateway:8092'', token = None,
      tenantId = Some ''acme'', timeout = Some 5000\<rparr>"

definition example_client_anonymous :: BinelekGatewayClient where
  "example_client_anonymous =
     \<lparr>client = \<lparr>baseURL = Some ''http://gateway:8092'',
                 headers = [(''X-Tenant-Id'', Some ''acme''),
                            (''Content-Type'', Some ''application/json'')],
                 timeout_ms = 5000,
                 validateStatus = (\<lambda>status. status < 500)\<rparr>,
      this_tenantId = Some ''acme''\<rparr>"

definition answering :: "nat \<Rightarrow> json \<Rightarrow> upstream" where
  "answering st d = (\<lambda>req. Replied \<lparr>status = st, data = d\<rparr>)"

text \<open>The example client in front of a given upstream, as the handlers receive it.\<close>

definition example_gateway :: "upstream \<Rightarrow> gateway_object" where
  "example_gateway net = gateway example_builtins example_client net"

text \<open>A gateway that never answers, and a channel on which no request can be sent.\<close>

definition unanswered :: "string \<Rightarrow> upstream" where
  "unanswered msg = (\<lambda>req. NoReply msg)"

definition unsendable :: "string \<Rightarrow> upstream" where
  "unsendable msg = (\<lambda>req. NotSent msg)"

section \<open>Facts about the client\<close>

lemma example_client_constructed: "new_BinelekGatewayClient example_config = Inr example_client"
  by (simp add: new_BinelekGatewayClient_def example_config_def example_client_def)

lemma example_client_anonymous_constructed:
  "new_BinelekGatewayClient example_config_anonymous = Inr example_client_anonymous"
  by (simp add: new_BinelekGatewayClient_def example_config_anonymous_def
        example_client_anonymous_def)

lemma decimal_503: "decimal 503 = ''503''"
  by code_simp

lemma digit_code: "d < 10 \<Longrightarrow> (of_char (digit d) :: nat) = 48 + d"
proof -
  assume "d < 10"
  then consider "d = 0" | "d = 1" | "d = 2" | "d = 3" | "d = 4" | "d = 5" | "d = 6"
    | "d = 7" | "d = 8" | "d = 9"
    by atomize_elim arith
  then show ?thesis
    by cases (simp_all add: digit_def)
qed

lemma decimal_three_digits:
  assumes "100 \<le> n" and "n < 1000"
  shows "map of_char (decimal n) = [48 + n div 100, 48 + n div 10 mod 10, 48 + n mod 10]"
proof -
  have a: "decimal n = decimal (n div 10) @ [digit (n mod 10)]"
    using assms by (subst decimal.simps) simp
  have b: "decimal (n div 10) = decimal (n div 10 div 10) @ [digit (n div 10 mod 10)]"
    using assms by (subst decimal.simps) simp
  have c: "decimal (n div 10 div 10) = [digit (n div 100)]"
    using assms by (subst decimal.simps) (simp add: div_mult2_eq [symmetric])
  have d: "n div 100 < 10"
    using assms by simp
  show ?thesis
    using a b c d by (simp add: digit_code)
qed

lemma String_throws:
  "json_String bi j = Inl e \<Longrightarrow> e = new_Error (cannot_convert bi)"
  "elements_String bi js = Inl e \<Longrightarrow> e = new_Error (cannot_convert bi)"
  by (induction bi j and bi js arbitrary: e and e rule: json_String_elements_String.induct)
     (auto split: sum.splits if_splits)

lemma js_String_throws: "js_String bi v = Inl e \<Longrightarrow> e = new_Error (cannot_convert bi)"
  by (cases v) (auto simp: js_String_def dest: String_throws(1))


lemma constructed_client:
  assumes "new_BinelekGatewayClient config = Inr this"
  shows "validateStatus (client this) = (\<lambda>status. status < 500)"
    and "this_tenantId this = tenantId config"
    and "baseURL (client this) = baseUrl config"
    and "headers (client this) =
           (case token config of
              None \<Rightarrow> [(''X-Tenant-Id'', tenantId config),
                       (''Content-Type'', Some ''application/json'')]
            | Some t \<Rightarrow>
                if t = [] then [(''X-Tenant-Id'', tenantId config),
                                (''Content-Type'', Some ''application/json'')]
                else [(''X-Tenant-Id'', tenantId config),
                      (''Content-Type'', Some ''application/json''),
                      (''Authorization'', Some (''Bearer '' @ t))])"
  using assms
  by (auto simp: new_BinelekGatewayClient_def Let_def split: option.splits if_splits)

lemma outbound_headers:
  "outbound bi this op = Inr req \<Longrightarrow> req_headers req = headers (client this)"
  by (auto simp: outbound_def andThen_def split: sum.splits prod.splits)

lemma outbound_body:
  "map_sum (\<lambda>thrown. thrown) body (outbound bi this op) =
     map_sum (\<lambda>thrown. thrown) (\<lambda>c. snd (snd c)) (http_call bi this op)"
  by (simp add: outbound_def andThen_def split: sum.splits prod.splits)

lemma outbound_thrown:
  "outbound bi this op = Inl thrown \<Longrightarrow> thrown = new_Error (cannot_convert bi)"
  by (cases op)
     (auto simp: outbound_def andThen_def split: sum.splits prod.splits dest: js_String_throws)

lemma getEntity_sent:
  "outbound bi this (getEntity entityId) = Inr req \<Longrightarrow> \<exists>id. js_String bi entityId = Inr id"
  by (auto simp: outbound_def andThen_def split: sum.splits)


lemma try_call_outbound:
  "try_call bi this net op =
     (case outbound bi this op of
        Inl thrown \<Rightarrow> Inl thrown
      | Inr req \<Rightarrow>
          (case net req of
             Replied r \<Rightarrow>
               if validateStatus (client this) (status r) then on_response bi op r
               else Inl \<lparr>response = Some r, request = True,
                         message = ''Request failed with status code '' @ decimal (status r)\<rparr>
           | NoReply msg \<Rightarrow> Inl \<lparr>response = None, request = True, message = msg\<rparr>
           | NotSent msg \<Rightarrow> Inl \<lparr>response = None, request = False, message = msg\<rparr>))"
  by (simp add: try_call_def outbound_def andThen_def axios_request_def
        split: sum.splits prod.splits exchange.splits)

lemma on_response_cases:
  assumes "outbound bi this op = Inr req"
  shows "on_response bi op r = Inr (data r)
       \<or> (\<exists>entityId id. op = getEntity entityId \<and> status r = 404
             \<and> js_String bi entityId = Inr id
             \<and> on_response bi op r = Inl (new_Error (''Entity not found: '' @ id)))"
proof (cases op)
  case (getEntity entityId)
  then obtain id where "js_String bi entityId = Inr id"
    using getEntity_sent assms by blast
  then show ?thesis
    using getEntity by (simp add: andThen_def)
qed simp_all

text \<open>A call of a constructed client, by what became of its request.\<close>

lemma gateway_outbound:
  assumes "validateStatus (client this) = (\<lambda>status. status < 500)"
  shows "gateway bi this net op =
     (case outbound bi this op of
        Inl thrown \<Rightarrow> Inl (new_Error (''Request failed: '' @ cannot_convert bi))
      | Inr req \<Rightarrow>
          (case net req of
             Replied r \<Rightarrow>
               if status r < 500 then
                 (case on_response bi op r of
                    Inl thrown \<Rightarrow> Inl (new_Error (''Request failed: '' @ message thrown))
                  | Inr result \<Rightarrow> Inr result)
               else Inl (new_Error (''API Error ('' @ decimal (status r) @ ''): ''
                                      @ JSON_stringify bi (data r)))
           | NoReply msg \<Rightarrow> Inl (new_Error ''No response from API Gateway. Is it running?'')
           | NotSent msg \<Rightarrow> Inl (new_Error (''Request failed: '' @ msg))))"
proof (cases "outbound bi this op")
  case (Inl thrown)
  then have "thrown = new_Error (cannot_convert bi)"
    by (rule outbound_thrown)
  then show ?thesis
    using Inl by (simp add: gateway_def try_call_outbound handleError_def new_Error_def)
next
  case (Inr req)
  have t: "handleError bi thrown = new_Error (''Request failed: '' @ message thrown)"
    if "on_response bi op r = Inl thrown" for r thrown
  proof -
    have "\<exists>m. thrown = new_Error m"
      using on_response_cases [OF Inr, of r] that by auto
    then show ?thesis
      by (auto simp: handleError_def new_Error_def)
  qed
  show ?thesis
    using Inr assms t
    by (auto simp: gateway_def try_call_outbound handleError_def
          split: exchange.splits sum.splits)
qed

lemma example_not_found:
  "example_gateway (answering 404 (JStr ''Not Found'')) (getEntity (Some (JStr ''prop_123'')))
   = Inl (new_Error ''Request failed: Entity not found: prop_123'')"
  by (simp add: example_gateway_def gateway_def try_call_def axios_request_def andThen_def
        answering_def example_client_def handleError_def new_Error_def js_String_def)

lemma example_passes_through:
  assumes "st < 500" and "st \<noteq> 404"
    and "\<not> isl (outbound example_builtins example_client op)"
  shows "example_gateway (answering st d) op = Inr d"
proof -
  obtain req where req: "outbound example_builtins example_client op = Inr req"
    using assms(3) by (cases "outbound example_builtins example_client op") auto
  have "on_response example_builtins op \<lparr>status = st, data = d\<rparr> = Inr d"
    using assms(2) by (cases op) simp_all
  then show ?thesis
    using assms(1) req
    by (simp add: example_gateway_def gateway_def try_call_outbound answering_def
          example_client_def)
qed

section \<open>Construction\<close>

text \<open>
  C2 (as the code has it). The constructor validates nothing and never fails: from any
  configuration, with or without \<open>baseUrl\<close> and \<open>tenantId\<close>, it builds a client whose
  base URL, tenant id and tenant header are whatever the configuration holds. A
  configuration without the two fields is ruled out by the declared type of the
  parameter only, before the program runs.
\<close>

theorem constructor_never_rejects:
  "\<exists>this. new_BinelekGatewayClient config = Inr this
          \<and> baseURL (client this) = baseUrl config
          \<and> this_tenantId this = tenantId config
          \<and> map_of (headers (client this)) ''X-Tenant-Id'' = Some (tenantId config)"
  by (cases "token config") (simp_all add: new_BinelekGatewayClient_def Let_def)

text \<open>
  C2 as stated fails: constructing a client from a configuration that has neither
  \<open>baseUrl\<close> nor \<open>tenantId\<close> succeeds.
\<close>

theorem constructor_missing_fields_counterexample:
  "\<not> isl (new_BinelekGatewayClient
             \<lparr>baseUrl = None, token = None, tenantId = None, timeout = None\<rparr>)"
  by (simp add: new_BinelekGatewayClient_def)

text \<open>
  C7. Every request a constructed client sends carries the header \<open>X-Tenant-Id\<close> with
  the configured tenant id and \<open>Content-Type: application/json\<close>. It carries
  \<open>Authorization\<close>, equal to \<open>Bearer \<close> followed by the token, exactly when a token is
  configured, which the constructor tests with \<open>if (config.token)\<close>: the token is there
  and is not the empty string (the bootstrap logs ``No token'' by the same test). Without
  a token the header has no entry at all. These are the default headers of the client's
  channel, and every request takes them from there.
\<close>

theorem default_headers_on_every_request:
  assumes "new_BinelekGatewayClient config = Inr this"
  shows "map_of (headers (client this)) ''X-Tenant-Id'' = Some (tenantId config)
       \<and> map_of (headers (client this)) ''Content-Type'' = Some (Some ''application/json'')
       \<and> map_of (headers (client this)) ''Authorization''
           = (case token config of
                None \<Rightarrow> None
              | Some t \<Rightarrow> if t = [] then None else Some (Some (''Bearer '' @ t)))
       \<and> (\<forall>req. outbound bi this op = Inr req \<longrightarrow>
            map_of (req_headers req) ''X-Tenant-Id'' = Some (tenantId config)
            \<and> map_of (req_headers req) ''Content-Type'' = Some (Some ''application/json'')
            \<and> map_of (req_headers req) ''Authorization''
                = (case token config of
                     None \<Rightarrow> None
                   | Some t \<Rightarrow> if t = [] then None else Some (Some (''Bearer '' @ t))))"
  by (auto simp: outbound_headers constructed_client(4) [OF assms] split: option.splits)

theorem default_headers_on_every_request_witness:
  "(\<exists>req. outbound example_builtins example_client (deleteEntity (Some (JStr ''e1''))) = Inr req
      \<and> url req = ''/api/ontology/entities/e1''
      \<and> map_of (req_headers req) ''X-Tenant-Id'' = Some (Some ''core'')
      \<and> map_of (req_headers req) ''Content-Type'' = Some (Some ''application/json'')
      \<and> map_of (req_headers req) ''Authorization'' = Some (Some ''Bearer jwt''))
   \<and> (\<exists>req. outbound example_builtins example_client_anonymous listDomains = Inr req
      \<and> map_of (req_headers req) ''X-Tenant-Id'' = Some (Some ''acme'')
      \<and> map_of (req_headers req) ''Authorization'' = None)"
proof -
  obtain req where req:
    "outbound example_builtins example_client (deleteEntity (Some (JStr ''e1''))) = Inr req"
    "url req = ''/api/ontology/entities/e1''"
    by (simp add: outbound_def andThen_def js_String_def)
  obtain req' where req':
    "outbound example_builtins example_client_anonymous listDomains = Inr req'"
    by (simp add: outbound_def andThen_def)
  note a = default_headers_on_every_request [OF example_client_constructed,
      of example_builtins "deleteEntity (Some (JStr ''e1''))",
      THEN conjunct2, THEN conjunct2, THEN conjunct2, rule_format, OF req(1)]
  note b = default_headers_on_every_request [OF example_client_anonymous_constructed,
      of example_builtins listDomains,
      THEN conjunct2, THEN conjunct2, THEN conjunct2, rule_format, OF req']
  have "map_of (req_headers req) ''X-Tenant-Id'' = Some (Some ''core'')
      \<and> map_of (req_headers req) ''Content-Type'' = Some (Some ''application/json'')
      \<and> map_of (req_headers req) ''Authorization'' = Some (Some ''Bearer jwt'')"
    using a by (simp add: example_config_def)
  moreover have "map_of (req_headers req') ''X-Tenant-Id'' = Some (Some ''acme'')
      \<and> map_of (req_headers req') ''Authorization'' = None"
    using b by (simp add: example_config_anonymous_def)
  ultimately show ?thesis
    using req req' by blast
qed

text \<open>
  C10. The body of every \<open>createEntity\<close> request has a field \<open>tenantId\<close> holding the
  client's configured tenant id. No other method puts the tenant id into its body: what
  any other call sends as its body (or throws before sending) is the same whichever
  client, of whichever tenant, makes the call.
\<close>

theorem tenantId_in_createEntity_body_only:
  assumes "new_BinelekGatewayClient config = Inr this"
  shows "(\<exists>req fs. outbound bi this (createEntity entityType attributes) = Inr req
             \<and> body req = Some (Fields fs)
             \<and> map_of fs ''tenantId'' = Some (map_option JStr (tenantId config)))
       \<and> ((\<forall>t a. op \<noteq> createEntity t a) \<longrightarrow>
            (\<forall>other. map_sum (\<lambda>thrown. thrown) body (outbound bi this op)
                   = map_sum (\<lambda>thrown. thrown) body (outbound bi other op)))"
proof -
  have t: "this_tenantId this = tenantId config"
    by (rule constructed_client(2) [OF assms])
  have one: "\<exists>req fs. outbound bi this (createEntity entityType attributes) = Inr req
             \<and> body req = Some (Fields fs)
             \<and> map_of fs ''tenantId'' = Some (map_option JStr (tenantId config))"
    by (simp add: outbound_def andThen_def t)
  have others: "map_sum (\<lambda>thrown. thrown) body (outbound bi this op)
                  = map_sum (\<lambda>thrown. thrown) body (outbound bi other op)"
    if "\<forall>t a. op \<noteq> createEntity t a" for other
    using that by (cases op) (simp_all add: outbound_body)
  show ?thesis
    using one others by blast
qed

theorem tenantId_in_createEntity_body_only_witness:
  "(\<exists>req fs. outbound example_builtins example_client
                (createEntity (Some (JStr ''Property'')) (Some (JObj []))) = Inr req
        \<and> body req = Some (Fields fs)
        \<and> map_of fs ''tenantId'' = Some (Some (JStr ''core'')))
   \<and> map_sum (\<lambda>thrown. thrown) body
        (outbound example_builtins example_client
           (hybridSearch (Some (JStr ''loft'')) (Some (JObj [(''query'', JStr ''loft'')]))))
     = map_sum (\<lambda>thrown. thrown) body
        (outbound example_builtins example_client_anonymous
           (hybridSearch (Some (JStr ''loft'')) (Some (JObj [(''query'', JStr ''loft'')]))))
   \<and> map_sum (\<lambda>thrown. thrown) body
        (outbound example_builtins example_client
           (hybridSearch (Some (JStr ''loft'')) (Some (JObj [(''query'', JStr ''loft'')]))))
     = Inr (Some (Fields [(''query'', Some (JStr ''loft''))]))"
proof -
  note t = tenantId_in_createEntity_body_only [OF example_client_constructed,
      of example_builtins "Some (JStr ''Property'')" "Some (JObj [])"
         "hybridSearch (Some (JStr ''loft'')) (Some (JObj [(''query'', JStr ''loft'')]))"]
  have a: "\<exists>req fs. outbound example_builtins example_client
                (createEntity (Some (JStr ''Property'')) (Some (JObj []))) = Inr req
        \<and> body req = Some (Fields fs)
        \<and> map_of fs ''tenantId'' = Some (Some (JStr ''core''))"
    using t [THEN conjunct1] by (simp add: example_config_def)
  have b: "map_sum (\<lambda>thrown. thrown) body
        (outbound example_builtins example_client
           (hybridSearch (Some (JStr ''loft'')) (Some (JObj [(''query'', JStr ''loft'')]))))
     = map_sum (\<lambda>thrown. thrown) body
        (outbound example_builtins example_client_anonymous
           (hybridSearch (Some (JStr ''loft'')) (Some (JObj [(''query'', JStr ''loft'')]))))"
    using t [THEN conjunct2, rule_format, of example_client_anonymous] by simp
  have c: "map_sum (\<lambda>thrown. thrown) body
        (outbound example_builtins example_client
           (hybridSearch (Some (JStr ''loft'')) (Some (JObj [(''query'', JStr ''loft'')]))))
     = Inr (Some (Fields [(''query'', Some (JStr ''loft''))]))"
    by (simp add: outbound_body spread_def)
  show ?thesis
    using a b c by blast
qed

section \<open>Failures of the client\<close>



text \<open>
  C5. Whatever goes wrong in a method of a constructed client, the error that leaves it
  is a fresh \<open>Error\<close> made by \<open>handleError\<close>: it carries neither the HTTP library's
  response nor its request, and its message has one of three shapes. A response with a
  status of 500 or more gives \<open>API Error (status): body\<close>, with the status in decimal
  digits (for a status of three digits: the characters with codes 48 plus the
  hundreds, the tens and the units) and the body serialized. A request that got no
  response gives the fixed sentence about the gateway not answering. A request that
  could not be sent gives \<open>Request failed: \<close> and the cause; so does a call whose path
  could not be built, and so does the 404 of \<open>getEntity\<close>. There is no other failure.
\<close>

theorem failures_normalized:
  assumes "new_BinelekGatewayClient config = Inr this"
  shows "(\<forall>req r. outbound bi this op = Inr req \<and> net req = Replied r \<and> 500 \<le> status r \<longrightarrow>
            gateway bi this net op =
              Inl (new_Error (''API Error ('' @ decimal (status r) @ ''): ''
                                @ JSON_stringify bi (data r))))
       \<and> (\<forall>n. 100 \<le> n \<and> n < 1000 \<longrightarrow>
            map of_char (decimal n) = [48 + n div 100, 48 + n div 10 mod 10, 48 + n mod 10])
       \<and> (\<forall>req m. outbound bi this op = Inr req \<and> net req = NoReply m \<longrightarrow>
            gateway bi this net op =
              Inl (new_Error ''No response from API Gateway. Is it running?''))
       \<and> (\<forall>req m. outbound bi this op = Inr req \<and> net req = NotSent m \<longrightarrow>
            gateway bi this net op = Inl (new_Error (''Request failed: '' @ m)))
       \<and> (\<forall>thrown. outbound bi this op = Inl thrown \<longrightarrow>
            gateway bi this net op =
              Inl (new_Error (''Request failed: '' @ cannot_convert bi)))
       \<and> (\<forall>error. gateway bi this net op = Inl error \<longrightarrow>
            response error = None \<and> \<not> request error
            \<and> ((\<exists>req r. outbound bi this op = Inr req \<and> net req = Replied r
                    \<and> 500 \<le> status r
                    \<and> message error = ''API Error ('' @ decimal (status r) @ ''): ''
                                         @ JSON_stringify bi (data r))
               \<or> (\<exists>req m. outbound bi this op = Inr req \<and> net req = NoReply m
                    \<and> message error = ''No response from API Gateway. Is it running?'')
               \<or> (\<exists>req m. outbound bi this op = Inr req \<and> net req = NotSent m
                    \<and> message error = ''Request failed: '' @ m)
               \<or> (\<exists>thrown. outbound bi this op = Inl thrown
                    \<and> message error = ''Request failed: '' @ cannot_convert bi)
               \<or> (\<exists>entityId id req r. op = getEntity entityId
                    \<and> js_String bi entityId = Inr id
                    \<and> outbound bi this op = Inr req \<and> net req = Replied r \<and> status r = 404
                    \<and> message error = ''Request failed: Entity not found: '' @ id)))"
proof -
  note g = gateway_outbound [OF constructed_client(1) [OF assms]]
  have a: "gateway bi this net op =
             Inl (new_Error (''API Error ('' @ decimal (status r) @ ''): ''
                               @ JSON_stringify bi (data r)))"
    if "outbound bi this op = Inr req" "net req = Replied r" "500 \<le> status r" for req r
    using that by (simp add: g)
  have b: "gateway bi this net op =
             Inl (new_Error ''No response from API Gateway. Is it running?'')"
    if "outbound bi this op = Inr req" "net req = NoReply m" for req m
    using that by (simp add: g)
  have c: "gateway bi this net op = Inl (new_Error (''Request failed: '' @ m))"
    if "outbound bi this op = Inr req" "net req = NotSent m" for req m
    using that by (simp add: g)
  have d: "gateway bi this net op = Inl (new_Error (''Request failed: '' @ cannot_convert bi))"
    if "outbound bi this op = Inl thrown" for thrown
    using that by (simp add: g)
  have e: "response error = None \<and> \<not> request error
            \<and> ((\<exists>req r. outbound bi this op = Inr req \<and> net req = Replied r
                    \<and> 500 \<le> status r
                    \<and> message error = ''API Error ('' @ decimal (status r) @ ''): ''
                                         @ JSON_stringify bi (data r))
               \<or> (\<exists>req m. outbound bi this op = Inr req \<and> net req = NoReply m
                    \<and> message error = ''No response from API Gateway. Is it running?'')
               \<or> (\<exists>req m. outbound bi this op = Inr req \<and> net req = NotSent m
                    \<and> message error = ''Request failed: '' @ m)
               \<or> (\<exists>thrown. outbound bi this op = Inl thrown
                    \<and> message error = ''Request failed: '' @ cannot_convert bi)
               \<or> (\<exists>entityId id req r. op = getEntity entityId
                    \<and> js_String bi entityId = Inr id
                    \<and> outbound bi this op = Inr req \<and> net req = Replied r \<and> status r = 404
                    \<and> message error = ''Request failed: Entity not found: '' @ id))"
    if f: "gateway bi this net op = Inl error" for error
  proof (cases "outbound bi this op")
    case (Inl thrown)
    then have "error = new_Error (''Request failed: '' @ cannot_convert bi)"
      using f by (simp add: g)
    then show ?thesis
      using Inl by (simp add: new_Error_def)
  next
    case (Inr req)
    show ?thesis
    proof (cases "net req")
      case (Replied r)
      show ?thesis
      proof (cases "status r < 500")
        case True
        then have "on_response bi op r \<noteq> Inr (data r)"
          using f Inr Replied by (auto simp: g)
        then obtain entityId id where o: "op = getEntity entityId" "status r = 404"
          "js_String bi entityId = Inr id"
          "on_response bi op r = Inl (new_Error (''Entity not found: '' @ id))"
          using on_response_cases [OF Inr, of r] by blast
        then have "error = new_Error (''Request failed: Entity not found: '' @ id)"
          using f Inr Replied True by (simp add: g new_Error_def andThen_def)
        then have "response error = None" "\<not> request error"
          "message error = ''Request failed: Entity not found: '' @ id"
          by (simp_all add: new_Error_def)
        then show ?thesis
          using o Inr Replied by blast
      next
        case False
        then have "error = new_Error (''API Error ('' @ decimal (status r) @ ''): ''
                                        @ JSON_stringify bi (data r))"
          using f Inr Replied by (simp add: g)
        then have "response error = None" "\<not> request error"
          "message error = ''API Error ('' @ decimal (status r) @ ''): ''
                             @ JSON_stringify bi (data r)"
          by (simp_all add: new_Error_def)
        then show ?thesis
          using False Inr Replied by (intro conjI disjI1 exI [of _ req] exI [of _ r]) simp_all
      qed
    next
      case (NoReply m)
      then have "error = new_Error ''No response from API Gateway. Is it running?''"
        using f Inr by (simp add: g)
      then have "response error = None" "\<not> request error"
        "message error = ''No response from API Gateway. Is it running?''"
        by (simp_all add: new_Error_def)
      then show ?thesis
        using Inr NoReply by blast
    next
      case (NotSent m)
      then have "error = new_Error (''Request failed: '' @ m)"
        using f Inr by (simp add: g)
      then have "response error = None" "\<not> request error"
        "message error = ''Request failed: '' @ m"
        by (simp_all add: new_Error_def)
      then show ?thesis
        using Inr NotSent by blast
    qed
  qed
  have p: "map of_char (decimal n) = [48 + n div 100, 48 + n div 10 mod 10, 48 + n mod 10]"
    if "100 \<le> n \<and> n < 1000" for n
    using that by (simp add: decimal_three_digits)
  show ?thesis
    using a b c d e p by blast
qed

theorem failures_normalized_witness:
  "gateway example_builtins example_client (answering 503 (JStr ''down'')) healthCheck
     = Inl (new_Error ''API Error (503): {}'')
   \<and> map of_char (decimal 503) = [53, 48, 51 :: nat]
   \<and> gateway example_builtins example_client (unanswered ''timeout of 30000ms exceeded'')
       listDomains
     = Inl (new_Error ''No response from API Gateway. Is it running?'')
   \<and> gateway example_builtins example_client (unsendable ''Invalid URL'') listPipelines
     = Inl (new_Error ''Request failed: Invalid URL'')
   \<and> gateway example_builtins example_client (answering 200 JNull)
       (getDomainConfig (Some (JObj [(''toString'', JStr ''x'')])))
     = Inl (new_Error ''Request failed: Cannot convert object to primitive value'')
   \<and> response (new_Error ''API Error (503): {}'') = None
   \<and> \<not> request (new_Error ''API Error (503): {}'')"
proof -
  note up = failures_normalized [OF example_client_constructed,
      of example_builtins healthCheck "answering 503 (JStr ''down'')"]
  note silent = failures_normalized [OF example_client_constructed,
      of example_builtins listDomains "unanswered ''timeout of 30000ms exceeded''"]
  note unsent = failures_normalized [OF example_client_constructed,
      of example_builtins listPipelines "unsendable ''Invalid URL''"]
  note unbuilt = failures_normalized [OF example_client_constructed,
      of example_builtins "getDomainConfig (Some (JObj [(''toString'', JStr ''x'')]))"
         "answering 200 JNull"]
  obtain r1 where r1: "outbound example_builtins example_client healthCheck = Inr r1"
    by (simp add: outbound_def andThen_def)
  obtain r2 where r2: "outbound example_builtins example_client listDomains = Inr r2"
    by (simp add: outbound_def andThen_def)
  obtain r3 where r3: "outbound example_builtins example_client listPipelines = Inr r3"
    by (simp add: outbound_def andThen_def)
  have r4: "outbound example_builtins example_client
              (getDomainConfig (Some (JObj [(''toString'', JStr ''x'')])))
            = Inl (new_Error (cannot_convert example_builtins))"
    by (simp add: outbound_def andThen_def js_String_def)
  have a: "gateway example_builtins example_client (answering 503 (JStr ''down'')) healthCheck
             = Inl (new_Error ''API Error (503): {}'')"
    using up [THEN conjunct1, rule_format, of r1 "\<lparr>status = 503, data = JStr ''down''\<rparr>"] r1
    by (simp add: answering_def example_builtins_def decimal_503)
  have p: "map of_char (decimal 503) = [53, 48, 51 :: nat]"
    using up [THEN conjunct2, THEN conjunct1, rule_format, of 503] by simp
  have b: "gateway example_builtins example_client
             (unanswered ''timeout of 30000ms exceeded'') listDomains
             = Inl (new_Error ''No response from API Gateway. Is it running?'')"
    using silent [THEN conjunct2, THEN conjunct2, THEN conjunct1, rule_format,
        of r2 "''timeout of 30000ms exceeded''"] r2
    by (simp add: unanswered_def)
  have c: "gateway example_builtins example_client (unsendable ''Invalid URL'') listPipelines
             = Inl (new_Error ''Request failed: Invalid URL'')"
    using unsent [THEN conjunct2, THEN conjunct2, THEN conjunct2, THEN conjunct1, rule_format,
        of r3 "''Invalid URL''"] r3
    by (simp add: unsendable_def)
  have d: "gateway example_builtins example_client (answering 200 JNull)
             (getDomainConfig (Some (JObj [(''toString'', JStr ''x'')])))
           = Inl (new_Error ''Request failed: Cannot convert object to primitive value'')"
    using unbuilt [THEN conjunct2, THEN conjunct2, THEN conjunct2, THEN conjunct2,
        THEN conjunct1, rule_format, OF r4]
    by (simp add: example_builtins_def)
  have e: "response (new_Error ''API Error (503): {}'') = None
           \<and> \<not> request (new_Error ''API Error (503): {}'')"
    using up [THEN conjunct2, THEN conjunct2, THEN conjunct2, THEN conjunct2, THEN conjunct2,
        rule_format, OF a]
    by simp
  show ?thesis
    using a p b c d e by simp
qed

text \<open>
  C6. For every method of a constructed client and every response the gateway sends to
  its request: a status of 500 or more makes the call throw; any status below 500 (so
  every status from 200 to 499) makes the call return the parsed body as it is, except
  status 404 on \<open>getEntity\<close>.
\<close>

theorem status_below_500_passes_through:
  assumes "new_BinelekGatewayClient config = Inr this"
    and "outbound bi this op = Inr req"
    and "net req = Replied r"
  shows "(500 \<le> status r \<longrightarrow> isl (gateway bi this net op))
       \<and> (status r < 500 \<and> (status r = 404 \<longrightarrow> (\<forall>entityId. op \<noteq> getEntity entityId)) \<longrightarrow>
            gateway bi this net op = Inr (data r))"
proof -
  note g = gateway_outbound [OF constructed_client(1) [OF assms(1)]]
  have hi: "isl (gateway bi this net op)" if "500 \<le> status r"
    using that assms(2,3) by (simp add: g)
  have lo: "gateway bi this net op = Inr (data r)"
    if "status r < 500" "status r = 404 \<longrightarrow> (\<forall>entityId. op \<noteq> getEntity entityId)"
  proof -
    have "on_response bi op r = Inr (data r)"
      using that(2) by (cases op) auto
    then show ?thesis
      using that(1) assms(2,3) by (simp add: g)
  qed
  show ?thesis
    using hi lo by blast
qed

theorem status_below_500_passes_through_witness:
  "isl (gateway example_builtins example_client (answering 500 (JStr ''oops'')) listDomains)
   \<and> gateway example_builtins example_client
        (answering 400 (JObj [(''error'', JStr ''bad yaml'')]))
        (validateYaml (Some (JStr ''a: b'')))
      = Inr (JObj [(''error'', JStr ''bad yaml'')])
   \<and> gateway example_builtins example_client (answering 404 JNull)
        (getPipeline (Some (JStr ''p1'')))
      = Inr JNull
   \<and> gateway example_builtins example_client (answering 200 (JObj [(''id'', JStr ''e1'')]))
        (getEntity (Some (JStr ''e1'')))
      = Inr (JObj [(''id'', JStr ''e1'')])"
proof -
  obtain r1 where r1: "outbound example_builtins example_client listDomains = Inr r1"
    by (simp add: outbound_def andThen_def)
  obtain r2 where r2:
    "outbound example_builtins example_client (validateYaml (Some (JStr ''a: b''))) = Inr r2"
    by (simp add: outbound_def andThen_def)
  obtain r3 where r3:
    "outbound example_builtins example_client (getPipeline (Some (JStr ''p1''))) = Inr r3"
    by (simp add: outbound_def andThen_def js_String_def)
  obtain r4 where r4:
    "outbound example_builtins example_client (getEntity (Some (JStr ''e1''))) = Inr r4"
    by (simp add: outbound_def andThen_def js_String_def)
  show ?thesis
    using
      status_below_500_passes_through [OF example_client_constructed r1,
        of "answering 500 (JStr ''oops'')" "\<lparr>status = 500, data = JStr ''oops''\<rparr>"]
      status_below_500_passes_through [OF example_client_constructed r2,
        of "answering 400 (JObj [(''error'', JStr ''bad yaml'')])"
           "\<lparr>status = 400, data = JObj [(''error'', JStr ''bad yaml'')]\<rparr>"]
      status_below_500_passes_through [OF example_client_constructed r3,
        of "answering 404 JNull" "\<lparr>status = 404, data = JNull\<rparr>"]
      status_below_500_passes_through [OF example_client_constructed r4,
        of "answering 200 (JObj [(''id'', JStr ''e1'')])"
           "\<lparr>status = 200, data = JObj [(''id'', JStr ''e1'')]\<rparr>"]
    by (simp add: answering_def)
qed

section \<open>Facts about the handlers\<close>

lemmas try_defs = ontology_try_def search_try_def ai_try_def pipeline_try_def admin_try_def

lemmas tools_defs = ontology_tools_def search_tools_def ai_tools_def pipeline_tools_def
  admin_tools_def

lemma unknown_in_try:
  "name \<notin> set (tools g) \<Longrightarrow> try_block g bi gw name args = Inr (unknown_tool name)"
  by (cases g) (simp_all add: try_defs tools_defs)

lemma invoked_member: "invoked g name args = Some op \<Longrightarrow> name \<in> set (tools g)"
  by (simp add: invoked_def split: if_splits)

lemma ontology_throw:
  assumes "invoked Ontology name args = Some op" and "gw op = Inl error"
  shows "ontology_try bi gw name args = Inl error"
  using assms
  by (simp add: invoked_def ontology_tools_def ontology_try_def andThen_def destructure_def
         Let_def split: if_splits option.splits)

lemma search_throw:
  assumes "invoked Search name args = Some op" and "gw op = Inl error"
  shows "search_try bi gw name args = Inl error"
  using assms
  by (simp add: invoked_def search_tools_def search_try_def andThen_def destructure_def
         Let_def split: if_splits option.splits)

lemma ai_throw:
  assumes "invoked AI name args = Some op" and "gw op = Inl error"
  shows "ai_try bi gw name args = Inl error"
  using assms
  by (simp add: invoked_def ai_tools_def ai_try_def andThen_def destructure_def
         Let_def split: if_splits option.splits)

lemma pipeline_throw:
  assumes "invoked Pipeline name args = Some op" and "gw op = Inl error"
  shows "pipeline_try bi gw name args = Inl error"
  using assms
  by (simp add: invoked_def pipeline_tools_def pipeline_try_def andThen_def destructure_def
         Let_def split: if_splits option.splits)

lemma admin_throw:
  assumes "invoked Admin name args = Some op" and "gw op = Inl error"
  shows "admin_try bi gw name args = Inl error"
  using assms
  by (simp add: invoked_def admin_tools_def admin_try_def andThen_def destructure_def
         Let_def split: if_splits option.splits)

lemma try_block_throw:
  assumes "invoked g name args = Some op" and "gw op = Inl error"
  shows "try_block g bi gw name args = Inl error"
  using assms
  by (cases g) (simp_all add: ontology_throw search_throw ai_throw pipeline_throw admin_throw)

lemma ontology_returns:
  assumes "ontology_try bi gw name args = Inr r"
  shows "if name \<in> set ontology_tools then \<exists>t. r = returned t else r = unknown_tool name"
  using assms
  by (auto simp: ontology_tools_def ontology_try_def andThen_def destructure_def
         split: if_splits option.splits sum.splits)

lemma search_returns:
  assumes "search_try bi gw name args = Inr r"
  shows "if name \<in> set search_tools then \<exists>t. r = returned t else r = unknown_tool name"
  using assms
  by (auto simp: search_tools_def search_try_def andThen_def destructure_def
         split: if_splits option.splits sum.splits)

lemma ai_returns:
  assumes "ai_try bi gw name args = Inr r"
  shows "if name \<in> set ai_tools then \<exists>t. r = returned t else r = unknown_tool name"
  using assms
  by (auto simp: ai_tools_def ai_try_def andThen_def destructure_def
         split: if_splits option.splits sum.splits)

lemma pipeline_returns:
  assumes "pipeline_try bi gw name args = Inr r"
  shows "if name \<in> set pipeline_tools then \<exists>t. r = returned t else r = unknown_tool name"
  using assms
  by (auto simp: pipeline_tools_def pipeline_try_def andThen_def destructure_def
         split: if_splits option.splits sum.splits)

lemma admin_returns:
  assumes "admin_try bi gw name args = Inr r"
  shows "if name \<in> set admin_tools then \<exists>t. r = returned t else r = unknown_tool name"
  using assms
  by (auto simp: admin_tools_def admin_try_def andThen_def destructure_def
         split: if_splits option.splits sum.splits)

lemma try_block_returns:
  assumes "try_block g bi gw name args = Inr r"
  shows "if name \<in> set (tools g) then \<exists>t. r = returned t else r = unknown_tool name"
  using assms ontology_returns search_returns ai_returns pipeline_returns admin_returns
  by (cases g) simp_all

section \<open>Results of tool calls\<close>

text \<open>
  C1 (as the code has it). Every call of a group's handler returns a result with exactly
  one text block, and no failure leaves the handler: whatever is thrown inside the
  \<open>try\<close> block reaches the \<open>catch\<close> block, which builds a result from the error's
  message. \<open>isError\<close> is never \<open>false\<close>: it is \<open>true\<close> when the name is not a tool of
  the group or something was thrown, and the property is absent when a declared tool
  ran to its \<open>return\<close>.
\<close>

theorem result_shape:
  "(\<exists>t. content (handler g bi gw name args) = [\<lparr>type = ''text'', text = t\<rparr>])
   \<and> isError (handler g bi gw name args) \<noteq> Some False
   \<and> (isError (handler g bi gw name args) = Some True
        \<longleftrightarrow> name \<notin> set (tools g) \<or> isl (try_block g bi gw name args))
   \<and> (isError (handler g bi gw name args) = None
        \<longleftrightarrow> name \<in> set (tools g) \<and> \<not> isl (try_block g bi gw name args))"
proof (cases "try_block g bi gw name args")
  case (Inl error)
  then have "handler g bi gw name args = caught error"
    by (simp add: handler_def)
  then show ?thesis
    using Inl by (simp add: caught_def)
next
  case (Inr r)
  then have h: "handler g bi gw name args = r"
    by (simp add: handler_def)
  show ?thesis
  proof (cases "name \<in> set (tools g)")
    case True
    then obtain t where "r = returned t"
      using try_block_returns [OF Inr] by auto
    then show ?thesis
      using Inr True h by (simp add: returned_def)
  next
    case False
    then have "r = unknown_tool name"
      using try_block_returns [OF Inr] by auto
    then show ?thesis
      using Inr False h by (simp add: unknown_tool_def)
  qed
qed

theorem result_shape_witness:
  "(\<exists>t. content (handler Search example_builtins (example_gateway (answering 200 JNull))
                    ''binelek_hybrid_search'' None)
            = [\<lparr>type = ''text'', text = t\<rparr>])
   \<and> isError (handler Search example_builtins (example_gateway (answering 200 JNull))
                ''binelek_hybrid_search'' None)
       = Some True
   \<and> isError (handler Pipeline example_builtins (example_gateway (answering 200 (JArr [])))
                ''binelek_list_pipelines'' None)
       = None"
proof -
  have s: "isl (try_block Search example_builtins (example_gateway (answering 200 JNull))
                  ''binelek_hybrid_search'' None)"
    by (simp add: search_try_def)
  have p: "''binelek_list_pipelines'' \<in> set (tools Pipeline)
           \<and> \<not> isl (try_block Pipeline example_builtins
                       (example_gateway (answering 200 (JArr [])))
                       ''binelek_list_pipelines'' None)"
    by (simp add: pipeline_tools_def pipeline_try_def andThen_def outbound_def
          example_passes_through)
  show ?thesis
    using s p
      result_shape [of Search example_builtins "example_gateway (answering 200 JNull)"
        "''binelek_hybrid_search''" None]
      result_shape [of Pipeline example_builtins "example_gateway (answering 200 (JArr []))"
        "''binelek_list_pipelines''" None]
    by simp
qed

text \<open>
  C1 as stated fails: a successful call returns a result without \<open>isError\<close>, not with
  \<open>isError\<close> equal to \<open>false\<close>.
\<close>

theorem success_without_isError_counterexample:
  "isError (handler Pipeline example_builtins (example_gateway (answering 200 (JArr [])))
              ''binelek_list_pipelines'' None)
     = None"
  by (simp add: handler_def pipeline_try_def andThen_def returned_def outbound_def
        example_passes_through)

text \<open>
  C4. When the gateway method that a tool call invokes throws, the handler returns one
  text block holding \<open>Error: \<close> followed by the message of the thrown error, with
  \<open>isError\<close> true. This holds for every tool of every group and every gateway object.
  Nothing thrown inside the \<open>try\<close> block gets past the handler: each throw ends in the
  result the \<open>catch\<close> block builds.
\<close>

theorem gateway_failure_becomes_error_result:
  assumes "invoked g name args = Some op" and "gw op = Inl error"
  shows "handler g bi gw name args =
           \<lparr>content = [\<lparr>type = ''text'', text = ''Error: '' @ message error\<rparr>],
            isError = Some True\<rparr>
       \<and> (\<forall>g' name' args' thrown. try_block g' bi gw name' args' = Inl thrown \<longrightarrow>
            handler g' bi gw name' args' =
              \<lparr>content = [\<lparr>type = ''text'', text = ''Error: '' @ message thrown\<rparr>],
               isError = Some True\<rparr>)"
  using try_block_throw [of g name args op gw error bi] assms
  by (simp add: handler_def caught_def)

theorem gateway_failure_becomes_error_result_witness:
  "handler Ontology example_builtins (example_gateway (answering 404 (JStr ''Not Found'')))
     ''binelek_get_entity'' (Some [(''entityId'', JStr ''prop_123'')])
   = \<lparr>content = [\<lparr>type = ''text'',
                   text = ''Error: Request failed: Entity not found: prop_123''\<rparr>],
      isError = Some True\<rparr>
   \<and> handler Search example_builtins
       (example_gateway (answering 404 (JStr ''Not Found''))) ''binelek_hybrid_search'' None
     = \<lparr>content = [\<lparr>type = ''text'', text = ''Error: Cannot read property query''\<rparr>],
        isError = Some True\<rparr>"
proof -
  have i: "invoked Ontology ''binelek_get_entity'' (Some [(''entityId'', JStr ''prop_123'')])
             = Some (getEntity (Some (JStr ''prop_123'')))"
    by (simp add: invoked_def ontology_tools_def)
  have t: "try_block Search example_builtins
             (example_gateway (answering 404 (JStr ''Not Found''))) ''binelek_hybrid_search'' None
           = Inl (new_Error ''Cannot read property query'')"
    by (simp add: search_try_def example_builtins_def)
  note r = gateway_failure_becomes_error_result
      [of Ontology "''binelek_get_entity''" "Some [(''entityId'', JStr ''prop_123'')]"
          "getEntity (Some (JStr ''prop_123''))"
          "example_gateway (answering 404 (JStr ''Not Found''))"
          "new_Error ''Request failed: Entity not found: prop_123''" example_builtins,
       OF i example_not_found]
  have a: "handler Ontology example_builtins
             (example_gateway (answering 404 (JStr ''Not Found'')))
             ''binelek_get_entity'' (Some [(''entityId'', JStr ''prop_123'')])
           = \<lparr>content = [\<lparr>type = ''text'',
                           text = ''Error: Request failed: Entity not found: prop_123''\<rparr>],
              isError = Some True\<rparr>"
    using r [THEN conjunct1] by (simp add: new_Error_def)
  have b: "handler Search example_builtins
             (example_gateway (answering 404 (JStr ''Not Found''))) ''binelek_hybrid_search'' None
           = \<lparr>content = [\<lparr>type = ''text'', text = ''Error: Cannot read property query''\<rparr>],
              isError = Some True\<rparr>"
    using r [THEN conjunct2, rule_format, OF t] by (simp add: new_Error_def)
  show ?thesis
    using a b by simp
qed

text \<open>
  C8. A call whose name is not among the tools the group declares returns \<open>isError\<close>
  true and the text \<open>Unknown tool: \<close> followed by that name, whatever the arguments and
  the gateway.
\<close>

theorem unknown_tool_names_flagged:
  assumes "name \<notin> set (tools g)"
  shows "handler g bi gw name args =
           \<lparr>content = [\<lparr>type = ''text'', text = ''Unknown tool: '' @ name\<rparr>],
            isError = Some True\<rparr>
       \<and> (\<exists>t. content (handler g bi gw name args) = [\<lparr>type = ''text'', text = t\<rparr>]
              \<and> sublist name t)"
proof -
  have h: "handler g bi gw name args = unknown_tool name"
    by (simp add: handler_def unknown_in_try [OF assms])
  have s: "sublist name (''Unknown tool: '' @ name)"
    by (rule sublist_append_leftI)
  show ?thesis
    using s unfolding h unknown_tool_def by simp
qed

theorem unknown_tool_names_flagged_witness:
  "handler AI example_builtins (example_gateway (answering 200 JNull))
     ''binelek_get_entity'' None =
     \<lparr>content = [\<lparr>type = ''text'', text = ''Unknown tool: binelek_get_entity''\<rparr>],
      isError = Some True\<rparr>
   \<and> (\<exists>t. content (handler AI example_builtins (example_gateway (answering 200 JNull))
                      ''binelek_get_entity'' None)
            = [\<lparr>type = ''text'', text = t\<rparr>]
          \<and> sublist ''binelek_get_entity'' t)"
proof -
  have n: "''binelek_get_entity'' \<notin> set (tools AI)"
    by (simp add: ai_tools_def)
  note u = unknown_tool_names_flagged
    [OF n, of example_builtins "example_gateway (answering 200 JNull)" None]
  have a: "handler AI example_builtins (example_gateway (answering 200 JNull))
             ''binelek_get_entity'' None =
     \<lparr>content = [\<lparr>type = ''text'', text = ''Unknown tool: binelek_get_entity''\<rparr>],
      isError = Some True\<rparr>"
    using u [THEN conjunct1] by simp
  show ?thesis
    by (rule conjI [OF a u [THEN conjunct2]])
qed

text \<open>
  C9. The YAML validation tool, when the gateway returns an object. If its \<open>valid\<close> is
  \<open>true\<close>, the text is the check mark (U+2713, the bytes E2 9C 93), then
  \<open> YAML is valid\<close>, a line feed and the whole object serialized. If its \<open>valid\<close> is
  \<open>false\<close>, the text is the ballot cross (U+2717, the bytes E2 9C 97), then
  \<open> YAML validation failed:\<close>, a line feed and the serialized \<open>errors\<close> value alone,
  which is the word \<open>undefined\<close> when the object has no \<open>errors\<close>.
\<close>

theorem validate_yaml_formats:
  assumes "gw (validateYaml (map_of kvs ''yamlContent'')) = Inr (JObj entries)"
  shows "(map_of entries ''valid'' = Some (JBool True) \<longrightarrow>
            handler Admin bi gw ''binelek_validate_yaml'' (Some kvs) =
              \<lparr>content = [\<lparr>type = ''text'',
                            text = [CHR 0xE2, CHR 0x9C, CHR 0x93] @ '' YAML is valid''
                                     @ [CHR 0x0A] @ JSON_stringify_2 bi (JObj entries)\<rparr>],
               isError = None\<rparr>)
       \<and> (\<forall>errors. map_of entries ''valid'' = Some (JBool False)
                   \<and> map_of entries ''errors'' = Some errors \<longrightarrow>
            handler Admin bi gw ''binelek_validate_yaml'' (Some kvs) =
              \<lparr>content = [\<lparr>type = ''text'',
                            text = [CHR 0xE2, CHR 0x9C, CHR 0x97] @ '' YAML validation failed:''
                                     @ [CHR 0x0A] @ JSON_stringify_2 bi errors\<rparr>],
               isError = None\<rparr>)
       \<and> (map_of entries ''valid'' = Some (JBool False) \<and> map_of entries ''errors'' = None \<longrightarrow>
            handler Admin bi gw ''binelek_validate_yaml'' (Some kvs) =
              \<lparr>content = [\<lparr>type = ''text'',
                            text = [CHR 0xE2, CHR 0x9C, CHR 0x97] @ '' YAML validation failed:''
                                     @ [CHR 0x0A] @ ''undefined''\<rparr>],
               isError = None\<rparr>)
       \<and> (\<forall>t. (map_of entries ''valid'' = Some (JBool True)
                 \<or> map_of entries ''valid'' = Some (JBool False))
                \<and> content (handler Admin bi gw ''binelek_validate_yaml'' (Some kvs))
                    = [\<lparr>type = ''text'', text = t\<rparr>] \<longrightarrow>
              (prefix [CHR 0xE2, CHR 0x9C, CHR 0x93] t
                 \<longleftrightarrow> map_of entries ''valid'' = Some (JBool True))
              \<and> (prefix [CHR 0xE2, CHR 0x9C, CHR 0x97] t
                 \<longleftrightarrow> map_of entries ''valid'' = Some (JBool False)))"
  using assms
  by (auto simp: handler_def admin_try_def andThen_def destructure_def returned_def
        template_stringify_2_def check_mark_def cross_mark_def newline_def)

theorem validate_yaml_formats_witness:
  "handler Admin example_builtins
     (example_gateway (answering 200 (JObj [(''valid'', JBool True), (''entities'', JNum 3)])))
     ''binelek_validate_yaml'' (Some [(''yamlContent'', JStr ''entities: []'')])
   = \<lparr>content = [\<lparr>type = ''text'',
                   text = [CHR 0xE2, CHR 0x9C, CHR 0x93] @ '' YAML is valid''
                            @ [CHR 0x0A] @ ''{ }''\<rparr>],
      isError = None\<rparr>
   \<and> handler Admin example_builtins
       (example_gateway
          (answering 400 (JObj [(''valid'', JBool False), (''errors'', JArr [JStr ''line 1''])])))
       ''binelek_validate_yaml'' (Some [(''yamlContent'', JStr ''entities: ['')])
     = \<lparr>content = [\<lparr>type = ''text'',
                     text = [CHR 0xE2, CHR 0x9C, CHR 0x97] @ '' YAML validation failed:''
                              @ [CHR 0x0A] @ ''{ }''\<rparr>],
        isError = None\<rparr>
   \<and> handler Admin example_builtins
       (example_gateway (answering 200 (JObj [(''valid'', JBool False)])))
       ''binelek_validate_yaml'' (Some [(''yamlContent'', JStr ''entities: ['')])
     = \<lparr>content = [\<lparr>type = ''text'',
                     text = [CHR 0xE2, CHR 0x9C, CHR 0x97] @ '' YAML validation failed:''
                              @ [CHR 0x0A] @ ''undefined''\<rparr>],
        isError = None\<rparr>
   \<and> prefix [CHR 0xE2, CHR 0x9C, CHR 0x93]
        ([CHR 0xE2, CHR 0x9C, CHR 0x93] @ '' YAML is valid'' @ [CHR 0x0A] @ ''{ }'')
   \<and> \<not> prefix [CHR 0xE2, CHR 0x9C, CHR 0x97]
          ([CHR 0xE2, CHR 0x9C, CHR 0x93] @ '' YAML is valid'' @ [CHR 0x0A] @ ''{ }'')"
proof -
  have sent: "\<not> isl (outbound example_builtins example_client (validateYaml y))" for y
    by (simp add: outbound_def andThen_def)
  note ok = validate_yaml_formats
    [of "example_gateway
           (answering 200 (JObj [(''valid'', JBool True), (''entities'', JNum 3)]))"
        "[(''yamlContent'', JStr ''entities: []'')]"
        "[(''valid'', JBool True), (''entities'', JNum 3)]" example_builtins,
     OF example_passes_through [OF _ _ sent]]
  note bad = validate_yaml_formats
    [of "example_gateway
           (answering 400 (JObj [(''valid'', JBool False), (''errors'', JArr [JStr ''line 1''])]))"
        "[(''yamlContent'', JStr ''entities: ['')]"
        "[(''valid'', JBool False), (''errors'', JArr [JStr ''line 1''])]" example_builtins,
     OF example_passes_through [OF _ _ sent]]
  note bare = validate_yaml_formats
    [of "example_gateway (answering 200 (JObj [(''valid'', JBool False)]))"
        "[(''yamlContent'', JStr ''entities: ['')]"
        "[(''valid'', JBool False)]" example_builtins,
     OF example_passes_through [OF _ _ sent]]
  have a: "handler Admin example_builtins
     (example_gateway (answering 200 (JObj [(''valid'', JBool True), (''entities'', JNum 3)])))
     ''binelek_validate_yaml'' (Some [(''yamlContent'', JStr ''entities: []'')])
   = \<lparr>content = [\<lparr>type = ''text'',
                   text = [CHR 0xE2, CHR 0x9C, CHR 0x93] @ '' YAML is valid''
                            @ [CHR 0x0A] @ ''{ }''\<rparr>],
      isError = None\<rparr>"
    using ok [THEN conjunct1] by (simp add: example_builtins_def)
  have b: "handler Admin example_builtins
       (example_gateway
          (answering 400 (JObj [(''valid'', JBool False), (''errors'', JArr [JStr ''line 1''])])))
       ''binelek_validate_yaml'' (Some [(''yamlContent'', JStr ''entities: ['')])
     = \<lparr>content = [\<lparr>type = ''text'',
                     text = [CHR 0xE2, CHR 0x9C, CHR 0x97] @ '' YAML validation failed:''
                              @ [CHR 0x0A] @ ''{ }''\<rparr>],
        isError = None\<rparr>"
    using bad [THEN conjunct2, THEN conjunct1] by (simp add: example_builtins_def)
  have c: "handler Admin example_builtins
       (example_gateway (answering 200 (JObj [(''valid'', JBool False)])))
       ''binelek_validate_yaml'' (Some [(''yamlContent'', JStr ''entities: ['')])
     = \<lparr>content = [\<lparr>type = ''text'',
                     text = [CHR 0xE2, CHR 0x9C, CHR 0x97] @ '' YAML validation failed:''
                              @ [CHR 0x0A] @ ''undefined''\<rparr>],
        isError = None\<rparr>"
    using bare [THEN conjunct2, THEN conjunct2, THEN conjunct1] by simp
  have d: "prefix [CHR 0xE2, CHR 0x9C, CHR 0x93]
             ([CHR 0xE2, CHR 0x9C, CHR 0x93] @ '' YAML is valid'' @ [CHR 0x0A] @ ''{ }'')
           \<and> \<not> prefix [CHR 0xE2, CHR 0x9C, CHR 0x97]
               ([CHR 0xE2, CHR 0x9C, CHR 0x93] @ '' YAML is valid'' @ [CHR 0x0A] @ ''{ }'')"
    using ok [THEN conjunct2, THEN conjunct2, THEN conjunct2, rule_format,
        of "[CHR 0xE2, CHR 0x9C, CHR 0x93] @ '' YAML is valid'' @ [CHR 0x0A] @ ''{ }''"] a
    by simp
  show ?thesis
    using a b c d by simp
qed

end
